theory Spec2Isabelle
  imports Main "HOL-Library.Sublist" "HOL-Library.AList"
begin

section \<open>Values, errors and the item protocol\<close>

text \<open>
  The programs under study are Python. Their documents (the JSON bodies of the master
  API server, the YAML deployment of \<^verbatim>\<open>join_node.py\<close>) are nested dictionaries with
  string keys and scalar leaves. A dictionary is an association list in insertion
  order; sequences are left out, since no function modelled here looks inside one.
\<close>

datatype pyval =
    PNone
  | PBool bool
  | PInt int
  | PStr string
  | PDict "(string \<times> pyval) list"

text \<open>
  The exceptions the modelled code can raise. \<open>Exception msg\<close> is the plain
  \<^verbatim>\<open>Exception\<close> of \<^verbatim>\<open>validate_and_fill_dict\<close>, with its message;
  \<open>ConnectionError\<close> is what \<^verbatim>\<open>requests.delete\<close> raises when the peer cannot
  be reached.
\<close>

datatype error =
    KeyError string
  | TypeError
  | AttributeError
  | IndexError
  | Exception string
  | ConnectionError

text \<open>The single quote character, which cannot stand inside a string literal here.\<close>

definition quote :: char where
  "quote = CHR 0x27"

text \<open>\<^verbatim>\<open>d[key]\<close> with a string key: only a dictionary holding the key answers.\<close>

fun py_getitem :: "pyval \<Rightarrow> string \<Rightarrow> error + pyval" where
  "py_getitem (PDict kvs) k =
     (case map_of kvs k of None \<Rightarrow> Inl (KeyError k) | Some v \<Rightarrow> Inr v)"
| "py_getitem _ k = Inl TypeError"

text \<open>
  \<^verbatim>\<open>d[key] = value\<close>: a present key keeps its position and takes the new value, a
  new key goes to the end; anything but a dictionary refuses item assignment.
\<close>

fun py_setitem :: "pyval \<Rightarrow> string \<Rightarrow> pyval \<Rightarrow> error + pyval" where
  "py_setitem (PDict kvs) k v = Inr (PDict (AList.update k v kvs))"
| "py_setitem _ k v = Inl TypeError"


fun is_dict :: "pyval \<Rightarrow> bool" where
  "is_dict (PDict kvs) = True"
| "is_dict _ = False"

section \<open>The deployment validator of join\_node.py\<close>

subsection \<open>String helpers\<close>

text \<open>
  \<^verbatim>\<open>s.strip(chars)\<close> treats its argument as a set of characters and removes every
  leading and every trailing character of \<open>s\<close> that is in the set.
\<close>

definition py_strip :: "string \<Rightarrow> string \<Rightarrow> string" where
  "py_strip chars s =
     rev (dropWhile (\<lambda>c. c \<in> set chars) (rev (dropWhile (\<lambda>c. c \<in> set chars) s)))"

text \<open>
  \<^verbatim>\<open>s.split(sep)\<close> for a non-empty separator: the leftmost occurrences, not
  overlapping, cut the string; the result is never empty. (Python raises ValueError on
  an empty separator; the only separator of the source is a literal of four characters,
  and the function is left unspecified on the empty one.)
\<close>

fun py_split :: "string \<Rightarrow> string \<Rightarrow> string list" where
  "py_split (a # sep) [] = [[]]"
| "py_split (a # sep) (c # cs) =
     (if prefix (a # sep) (c # cs)
      then [] # py_split (a # sep) (drop (length sep) cs)
      else (let r = py_split (a # sep) cs in (c # hd r) # tl r))"

subsection \<open>The difference report\<close>

text \<open>
  \<^verbatim>\<open>deepdiff.DeepDiff(template_dict, actual_dict)\<close> is a third-party library; the
  source reads one entry of its report, \<^verbatim>\<open>dictionary_item_removed\<close>. For nested
  dictionaries with string keys that entry lists, as strings
  \<^verbatim>\<open>root['k1']['k2']\<close>, the keys that a dictionary of the first document has and
  the dictionary at the same place of the second document lacks. Where both hold the
  key, the two values are compared in turn, and only two dictionaries are descended
  into: any other pair of values is reported under other entries
  (\<^verbatim>\<open>values_changed\<close>, \<^verbatim>\<open>type_changes\<close>), which the source does not read.
  The library walks one dictionary level at a time: it first reports the keys of the
  first document that the second lacks, in the order of the first document, and then
  goes through the keys both hold, in the order of the second document, reading the
  two values by key. (Python dictionaries hold a key once; the association lists are
  read with \<open>map_of\<close>.)
\<close>

definition item_path :: "string \<Rightarrow> string \<Rightarrow> string" where
  "item_path parent k = parent @ ''['' @ [quote] @ k @ [quote] @ '']''"

function (sequential) dictionary_item_removed :: "string \<Rightarrow> pyval \<Rightarrow> pyval \<Rightarrow> string list" where
  "dictionary_item_removed path (PDict t) (PDict a) =
     map (item_path path) (filter (\<lambda>k. map_of a k = None) (map fst t))
     @ concat (map (\<lambda>k. case map_of t k of
                           None \<Rightarrow> []
                         | Some v \<Rightarrow>
                             (case map_of a k of
                                None \<Rightarrow> []
                              | Some w \<Rightarrow> dictionary_item_removed (item_path path k) v w))
                   (map fst a))"
| "dictionary_item_removed path _ _ = []"
  by pat_completeness auto
termination
proof (relation "measure (\<lambda>(path, t, a). size t)")
  show "wf (measure (\<lambda>(path, t, a). size t))" by simp
next
  fix path :: string and t a :: "(string \<times> pyval) list" and k :: string and v w :: pyval
  assume "map_of t k = Some v"
  then have "(k, v) \<in> set t" by (rule map_of_SomeD)
  then have "size v < Suc (size_list (size_prod (\<lambda>x. 0) size) t)"
    by (induction t) auto
  then show "((item_path path k, v, w), (path, PDict t, PDict a))
      \<in> measure (\<lambda>(path, t, a). size t)"
    by simp
qed

subsection \<open>Decoding a path and writing at it\<close>

text \<open>
  \<^verbatim>\<open>_get_parent_to_child_key_list\<close>: two calls of \<^verbatim>\<open>strip\<close>, the first with
  the characters of \<^verbatim>\<open>root['\<close>, the second with those of \<^verbatim>\<open>']\<close>, then a split
  at \<^verbatim>\<open>']['\<close>.
\<close>

definition get_parent_to_child_key_list :: "string \<Rightarrow> string list" where
  "get_parent_to_child_key_list deep_diff_str =
     py_split ([quote] @ '']['' @ [quote])
       (py_strip ([quote] @ '']'') (py_strip (''root['' @ [quote]) deep_diff_str))"

text \<open>
  \<^verbatim>\<open>_get_sub_structure_of_dict\<close> is
  \<^verbatim>\<open>functools.reduce(operator.getitem, key_list, original_dict)\<close>: it follows the
  keys from the left and raises where one cannot be followed.
\<close>

fun get_sub_structure_of_dict :: "pyval \<Rightarrow> string list \<Rightarrow> error + pyval" where
  "get_sub_structure_of_dict original_dict [] = Inr original_dict"
| "get_sub_structure_of_dict original_dict (k # key_list) =
     (case py_getitem original_dict k of
        Inl e \<Rightarrow> Inl e
      | Inr d \<Rightarrow> get_sub_structure_of_dict d key_list)"

text \<open>
  The dictionary that \<^verbatim>\<open>_get_sub_structure_of_dict\<close> returns is the very object
  nested in the original, so assigning to it changes the original. With documents as
  trees, \<open>put_sub_structure\<close> writes the changed dictionary back at the place it was
  taken from.
\<close>

fun put_sub_structure :: "pyval \<Rightarrow> string list \<Rightarrow> pyval \<Rightarrow> pyval" where
  "put_sub_structure original_dict [] sub = sub"
| "put_sub_structure (PDict kvs) (k # key_list) sub =
     (case map_of kvs k of
        None \<Rightarrow> PDict kvs
      | Some d \<Rightarrow> PDict (AList.update k (put_sub_structure d key_list sub) kvs))"
| "put_sub_structure original_dict (k # key_list) sub = original_dict"

text \<open>
  \<^verbatim>\<open>_set_value\<close>:
  \<^verbatim>\<open>_get_sub_structure_of_dict(original_dict, key_list[:-1])[key_list[-1]] = value\<close>.
\<close>

definition set_value :: "pyval \<Rightarrow> string list \<Rightarrow> pyval \<Rightarrow> error + pyval" where
  "set_value original_dict key_list v =
     (case get_sub_structure_of_dict original_dict (butlast key_list) of
        Inl e \<Rightarrow> Inl e
      | Inr sub \<Rightarrow>
          if key_list = [] then Inl IndexError
          else (case py_setitem sub (last key_list) v of
                  Inl e \<Rightarrow> Inl e
                | Inr sub' \<Rightarrow> Inr (put_sub_structure original_dict (butlast key_list) sub')))"

subsection \<open>validate\_and\_fill\_dict\<close>

text \<open>
  The loop over the missing key strings. The actual dictionary is changed in place, so
  the loop returns it with its outcome: what was filled before an exception stays.
\<close>

fun fill_missing_keys ::
  "(string \<times> pyval) list \<Rightarrow> string list \<Rightarrow> pyval \<Rightarrow> (error + unit) \<times> pyval" where
  "fill_missing_keys optional_key_to_value [] actual_dict = (Inr (), actual_dict)"
| "fill_missing_keys optional_key_to_value (missing_key_str # rest) actual_dict =
     (case map_of optional_key_to_value missing_key_str of
        None \<Rightarrow>
          (Inl (Exception (''Key '' @ [quote] @ missing_key_str @ [quote] @ '' not found.'')),
           actual_dict)
      | Some v \<Rightarrow>
          (case set_value actual_dict (get_parent_to_child_key_list missing_key_str) v of
             Inl e \<Rightarrow> (Inl e, actual_dict)
           | Inr actual_dict' \<Rightarrow> fill_missing_keys optional_key_to_value rest actual_dict'))"

definition validate_and_fill_dict ::
  "pyval \<Rightarrow> pyval \<Rightarrow> (string \<times> pyval) list \<Rightarrow> (error + unit) \<times> pyval" where
  "validate_and_fill_dict template_dict actual_dict optional_key_to_value =
     fill_missing_keys optional_key_to_value
       (dictionary_item_removed ''root'' template_dict actual_dict) actual_dict"

text \<open>The template of \<^verbatim>\<open>standardize_join_node_deployment\<close>.\<close>

definition join_node_deployment_template :: pyval where
  "join_node_deployment_template =
     PDict [
       (''mode'', PStr []),
       (''master'', PDict [(''hostname'', PStr [])]),
       (''node'', PDict [
          (''hostname'', PStr []),
          (''public_ip_address'', PStr []),
          (''private_ip_address'', PStr []),
          (''resources'', PDict [
             (''cpu'', PStr []), (''memory'', PStr []), (''gpu'', PStr [])])]),
       (''connection'', PDict [(''api_server'', PDict [(''port'', PStr [])])])]"

section \<open>The master API server\<close>

subsection \<open>The cluster store\<close>

text \<open>
  The blueprints call \<^verbatim>\<open>redis_controller\<close>, imported from \<^verbatim>\<open>..objects\<close>, which
  is not among the sources at hand. Its state is the record below, for the one cluster
  that \<^verbatim>\<open>service_config["cluster_name"]\<close> names: the two tables of details, the two
  ticket queues (the head is the oldest ticket), and a journal of the calls that
  changed the store, in the order they were made. The field \<open>requests_sent\<close> is not
  part of the store: it lists the HTTP requests the server has sent to node agents.
\<close>

datatype store_call =
    Set_job_details pyval pyval
  | Set_node_details pyval pyval
  | Push_pending_job_ticket pyval
  | Remove_pending_job_ticket pyval
  | Push_killed_job_ticket pyval
  | Delete_pending_jobs_queue
  | Delete_killed_jobs_queue

text \<open>
  \<^verbatim>\<open>requests.delete(url=f"http://{node_private_ip_address}:{api_server_port}/containers/{container_name}")\<close>:
  the request is kept as the three values the URL is formatted from.
\<close>

record delete_request =
  node_private_ip_address :: pyval
  api_server_port :: pyval
  container_name :: string

record cluster =
  name_to_job_details :: "(pyval \<times> pyval) list"
  name_to_node_details :: "(pyval \<times> pyval) list"
  pending_job_tickets :: "pyval list"
  killed_job_tickets :: "pyval list"
  journal :: "store_call list"
  requests_sent :: "delete_request list"

text \<open>
  Modelled from the spec: \<^verbatim>\<open>redis_controller.get_job_details\<close> is missing; point
  lookup of a job record by name, \<open>None\<close> being the explicit not-found outcome for an
  absent key.
\<close>

definition get_job_details :: "cluster \<Rightarrow> pyval \<Rightarrow> pyval option" where
  "get_job_details c job_name = map_of (name_to_job_details c) job_name"

text \<open>
  Modelled from the spec: \<^verbatim>\<open>redis_controller.get_node_details\<close> is missing; point
  lookup of a node record by name, \<open>None\<close> being the explicit not-found outcome for an
  absent key.
\<close>

definition get_node_details :: "cluster \<Rightarrow> pyval \<Rightarrow> pyval option" where
  "get_node_details c node_name = map_of (name_to_node_details c) node_name"

text \<open>
  Modelled from the spec: \<^verbatim>\<open>redis_controller.set_job_details\<close> is missing; it
  persists the record under the name, replacing a record already there.
\<close>

definition set_job_details :: "cluster \<Rightarrow> pyval \<Rightarrow> pyval \<Rightarrow> cluster" where
  "set_job_details c job_name job_details =
     c\<lparr>name_to_job_details := AList.update job_name job_details (name_to_job_details c),
       journal := journal c @ [Set_job_details job_name job_details]\<rparr>"

text \<open>
  Modelled from the spec: \<^verbatim>\<open>redis_controller.set_node_details\<close> is missing; it
  persists the record under the name, replacing a record already there.
\<close>

definition set_node_details :: "cluster \<Rightarrow> pyval \<Rightarrow> pyval \<Rightarrow> cluster" where
  "set_node_details c node_name node_details =
     c\<lparr>name_to_node_details := AList.update node_name node_details (name_to_node_details c),
       journal := journal c @ [Set_node_details node_name node_details]\<rparr>"


text \<open>
  Modelled from the spec: \<^verbatim>\<open>redis_controller.push_pending_job_ticket\<close> is missing;
  push appends the ticket to the unbounded pending queue and drops nothing.
\<close>

definition push_pending_job_ticket :: "cluster \<Rightarrow> pyval \<Rightarrow> cluster" where
  "push_pending_job_ticket c job_name =
     c\<lparr>pending_job_tickets := pending_job_tickets c @ [job_name],
       journal := journal c @ [Push_pending_job_ticket job_name]\<rparr>"

text \<open>
  Modelled from the spec: \<^verbatim>\<open>redis_controller.push_killed_job_ticket\<close> is missing;
  push appends the ticket to the unbounded killed queue and drops nothing.
\<close>

definition push_killed_job_ticket :: "cluster \<Rightarrow> pyval \<Rightarrow> cluster" where
  "push_killed_job_ticket c job_name =
     c\<lparr>killed_job_tickets := killed_job_tickets c @ [job_name],
       journal := journal c @ [Push_killed_job_ticket job_name]\<rparr>"

text \<open>
  Modelled from the spec: \<^verbatim>\<open>redis_controller.remove_pending_job_ticket\<close> is missing;
  a removal filtered by name: the tickets carrying the name leave the pending queue,
  wherever they stand, and the others keep their order. An absent name is no error.
\<close>

definition remove_pending_job_ticket :: "cluster \<Rightarrow> pyval \<Rightarrow> cluster" where
  "remove_pending_job_ticket c job_name =
     c\<lparr>pending_job_tickets := removeAll job_name (pending_job_tickets c),
       journal := journal c @ [Remove_pending_job_ticket job_name]\<rparr>"



subsection \<open>blueprints/jobs.py\<close>

text \<open>
  A view function takes the cluster (and the body or the URL segment of the request)
  and returns what it returns to Flask, or the exception it raises, with the cluster
  as it then is. \<^verbatim>\<open>get_job\<close> returns what the store returned, unchanged.
\<close>

definition get_job :: "cluster \<Rightarrow> string \<Rightarrow> pyval option" where
  "get_job c job_name = get_job_details c (PStr job_name)"

text \<open>
  \<^verbatim>\<open>create_job\<close>: the body is \<^verbatim>\<open>request.json\<close>. Python evaluates
  \<^verbatim>\<open>job_details["name"]\<close> as an argument, before the call it is passed to.
\<close>

definition create_job :: "cluster \<Rightarrow> pyval \<Rightarrow> (error + pyval) \<times> cluster" where
  "create_job c job_details =
     (case py_getitem job_details ''name'' of
        Inl e \<Rightarrow> (Inl e, c)
      | Inr job_name \<Rightarrow>
          (let c1 = set_job_details c job_name job_details in
           case py_getitem job_details ''name'' of
             Inl e \<Rightarrow> (Inl e, c1)
           | Inr job_name' \<Rightarrow> (Inr (PDict []), push_pending_job_ticket c1 job_name')))"

definition delete_job :: "cluster \<Rightarrow> string \<Rightarrow> (error + pyval) \<times> cluster" where
  "delete_job c job_name =
     (let c1 = remove_pending_job_ticket c (PStr job_name);
          c2 = push_killed_job_ticket c1 (PStr job_name)
      in (Inr (PDict []), c2))"




subsection \<open>blueprints/nodes.py\<close>

definition get_node :: "cluster \<Rightarrow> string \<Rightarrow> pyval option" where
  "get_node c node_name = get_node_details c (PStr node_name)"

definition create_node :: "cluster \<Rightarrow> pyval \<Rightarrow> (error + pyval) \<times> cluster" where
  "create_node c node_details =
     (case py_getitem node_details ''name'' of
        Inl e \<Rightarrow> (Inl e, c)
      | Inr node_name \<Rightarrow> (Inr (PDict []), set_node_details c node_name node_details))"

subsection \<open>What Flask makes of a returned value\<close>

text \<open>
  Flask, a third-party library, turns what a view function returns into the response
  (\<^verbatim>\<open>make_response\<close>): a dictionary becomes a JSON body and a string a text body,
  both with status 200; for \<^verbatim>\<open>None\<close>, as for any other value of the kinds modelled
  here, it raises TypeError, which no handler of the application catches.
\<close>

fun flask_make_response :: "pyval option \<Rightarrow> error + (nat \<times> pyval)" where
  "flask_make_response None = Inl TypeError"
| "flask_make_response (Some (PDict kvs)) = Inr (200, PDict kvs)"
| "flask_make_response (Some (PStr s)) = Inr (200, PStr s)"
| "flask_make_response (Some v) = Inl TypeError"

section \<open>Notions used in the statements\<close>

text \<open>
  \<^verbatim>\<open>sep.join(parts)\<close>, and the string under which the difference report names the
  path \<open>k1, ..., kn\<close> from the root.
\<close>

fun py_join :: "string \<Rightarrow> string list \<Rightarrow> string" where
  "py_join sep [] = []"
| "py_join sep [x] = x"
| "py_join sep (x # y # ys) = x @ sep @ py_join sep (y # ys)"

definition deep_diff_path :: "string list \<Rightarrow> string" where
  "deep_diff_path ks = foldl item_path ''root'' ks"



section \<open>Jobs and nodes in the store\<close>

text \<open>
  C1. For a job document with a \<^verbatim>\<open>name\<close>, \<^verbatim>\<open>create_job\<close> returns \<^verbatim>\<open>{}\<close>; the
  store then holds the document under that name, so that \<^verbatim>\<open>get_job\<close> of the name
  returns it; the pending queue has grown by exactly one ticket, the name, at its end;
  and the journal shows the record written before the ticket was pushed.
\<close>

theorem create_job_record_then_ticket:
  assumes "py_getitem job_details ''name'' = Inr job_name"
  shows "fst (create_job c job_details) = Inr (PDict [])
    \<and> get_job_details (snd (create_job c job_details)) job_name = Some job_details
    \<and> (\<forall>s. job_name = PStr s \<longrightarrow> get_job (snd (create_job c job_details)) s = Some job_details)
    \<and> pending_job_tickets (snd (create_job c job_details)) = pending_job_tickets c @ [job_name]
    \<and> killed_job_tickets (snd (create_job c job_details)) = killed_job_tickets c
    \<and> journal (snd (create_job c job_details))
        = journal c @ [Set_job_details job_name job_details, Push_pending_job_ticket job_name]"
  using assms
  by (simp add: create_job_def Let_def set_job_details_def push_pending_job_ticket_def
      get_job_details_def get_job_def update_conv')

theorem create_job_record_then_ticket_witness:
  "py_getitem (PDict [(''name'', PStr ''j1''), (''mode'', PStr ''grass'')]) ''name'' = Inr (PStr ''j1'')
   \<and> get_job (snd (create_job
        \<lparr>name_to_job_details = [], name_to_node_details = [], pending_job_tickets = [PStr ''j0''],
         killed_job_tickets = [], journal = [], requests_sent = []\<rparr>
        (PDict [(''name'', PStr ''j1''), (''mode'', PStr ''grass'')]))) ''j1''
      = Some (PDict [(''name'', PStr ''j1''), (''mode'', PStr ''grass'')])
   \<and> pending_job_tickets (snd (create_job
        \<lparr>name_to_job_details = [], name_to_node_details = [], pending_job_tickets = [PStr ''j0''],
         killed_job_tickets = [], journal = [], requests_sent = []\<rparr>
        (PDict [(''name'', PStr ''j1''), (''mode'', PStr ''grass'')])))
      = [PStr ''j0'', PStr ''j1'']"
  using create_job_record_then_ticket
    [of "PDict [(''name'', PStr ''j1''), (''mode'', PStr ''grass'')]" "PStr ''j1''"
        "\<lparr>name_to_job_details = [], name_to_node_details = [], pending_job_tickets = [PStr ''j0''],
         killed_job_tickets = [], journal = [], requests_sent = []\<rparr>"]
  by simp

text \<open>
  C2. For every name and every store, \<^verbatim>\<open>delete_job\<close> returns \<^verbatim>\<open>{}\<close>; the pending
  queue is the old one without the tickets carrying the name (removed by name, wherever
  they stand, by one \<^verbatim>\<open>remove_pending_job_ticket\<close> call), so it holds none; the killed
  queue has grown by exactly one ticket, the name; the job records are untouched. No
  pending ticket for the name is needed for any of this.
\<close>

theorem delete_job_queues_only:
  "fst (delete_job c job_name) = Inr (PDict [])
   \<and> pending_job_tickets (snd (delete_job c job_name))
       = removeAll (PStr job_name) (pending_job_tickets c)
   \<and> PStr job_name \<notin> set (pending_job_tickets (snd (delete_job c job_name)))
   \<and> killed_job_tickets (snd (delete_job c job_name)) = killed_job_tickets c @ [PStr job_name]
   \<and> name_to_job_details (snd (delete_job c job_name)) = name_to_job_details c
   \<and> get_job (snd (delete_job c job_name)) job_name = get_job c job_name
   \<and> journal (snd (delete_job c job_name))
       = journal c @ [Remove_pending_job_ticket (PStr job_name), Push_killed_job_ticket (PStr job_name)]"
  by (simp add: delete_job_def Let_def remove_pending_job_ticket_def push_killed_job_ticket_def
      get_job_def get_job_details_def)

text \<open>
  C7. Two node documents with the same \<^verbatim>\<open>name\<close>: both calls of \<^verbatim>\<open>create_node\<close>
  return \<^verbatim>\<open>{}\<close>, the store then holds the second document under the name, and the
  second call has added no entry to the table.
\<close>

theorem create_node_twice:
  assumes "py_getitem n1 ''name'' = Inr node_name" and "py_getitem n2 ''name'' = Inr node_name"
  shows "fst (create_node c n1) = Inr (PDict [])
    \<and> fst (create_node (snd (create_node c n1)) n2) = Inr (PDict [])
    \<and> get_node_details (snd (create_node (snd (create_node c n1)) n2)) node_name = Some n2
    \<and> (\<forall>s. node_name = PStr s \<longrightarrow>
          get_node (snd (create_node (snd (create_node c n1)) n2)) s = Some n2)
    \<and> map fst (name_to_node_details (snd (create_node (snd (create_node c n1)) n2)))
        = map fst (name_to_node_details (snd (create_node c n1)))"
  using assms
  by (simp add: create_node_def set_node_details_def get_node_details_def get_node_def
      update_conv' update_keys)

theorem create_node_twice_witness:
  "get_node (snd (create_node (snd (create_node
        \<lparr>name_to_job_details = [], name_to_node_details = [], pending_job_tickets = [],
         killed_job_tickets = [], journal = [], requests_sent = []\<rparr>
        (PDict [(''name'', PStr ''n1''), (''hostname'', PStr ''h1'')])))
        (PDict [(''name'', PStr ''n1''), (''hostname'', PStr ''h2'')]))) ''n1''
     = Some (PDict [(''name'', PStr ''n1''), (''hostname'', PStr ''h2'')])
   \<and> map fst (name_to_node_details (snd (create_node (snd (create_node
        \<lparr>name_to_job_details = [], name_to_node_details = [], pending_job_tickets = [],
         killed_job_tickets = [], journal = [], requests_sent = []\<rparr>
        (PDict [(''name'', PStr ''n1''), (''hostname'', PStr ''h1'')])))
        (PDict [(''name'', PStr ''n1''), (''hostname'', PStr ''h2'')])))) = [PStr ''n1'']"
  using create_node_twice
    [of "PDict [(''name'', PStr ''n1''), (''hostname'', PStr ''h1'')]" "PStr ''n1''"
        "PDict [(''name'', PStr ''n1''), (''hostname'', PStr ''h2'')]"
        "\<lparr>name_to_job_details = [], name_to_node_details = [], pending_job_tickets = [],
         killed_job_tickets = [], journal = [], requests_sent = []\<rparr>"]
  by (simp add: create_node_def set_node_details_def)

text \<open>
  C8, as the code has it. For a name under which the store holds no record,
  \<^verbatim>\<open>get_job\<close> and \<^verbatim>\<open>get_node\<close> return the store's not-found outcome,
  \<^verbatim>\<open>None\<close>, and no record; they do not handle it, so Flask, given \<^verbatim>\<open>None\<close> by
  the view, raises TypeError.
\<close>

theorem get_unknown_name_not_handled:
  "(PStr name \<notin> fst ` set (name_to_job_details c)
      \<longrightarrow> get_job c name = None \<and> flask_make_response (get_job c name) = Inl TypeError)
   \<and> (PStr name \<notin> fst ` set (name_to_node_details c)
      \<longrightarrow> get_node c name = None \<and> flask_make_response (get_node c name) = Inl TypeError)"
proof -
  have j: "get_job c name = None" if "PStr name \<notin> fst ` set (name_to_job_details c)"
    using that by (simp add: get_job_def get_job_details_def map_of_eq_None_iff)
  have n: "get_node c name = None" if "PStr name \<notin> fst ` set (name_to_node_details c)"
    using that by (simp add: get_node_def get_node_details_def map_of_eq_None_iff)
  from j n show ?thesis by auto
qed

theorem get_unknown_name_not_handled_witness:
  "PStr ''j2'' \<notin> fst ` set [(PStr ''j1'', PDict [(''name'', PStr ''j1'')])]
   \<and> flask_make_response (get_job \<lparr>name_to_job_details = [(PStr ''j1'', PDict [(''name'', PStr ''j1'')])],
        name_to_node_details = [], pending_job_tickets = [], killed_job_tickets = [],
        journal = [], requests_sent = []\<rparr> ''j2'') = Inl TypeError
   \<and> flask_make_response (get_node \<lparr>name_to_job_details = [(PStr ''j1'', PDict [(''name'', PStr ''j1'')])],
        name_to_node_details = [], pending_job_tickets = [], killed_job_tickets = [],
        journal = [], requests_sent = []\<rparr> ''j2'') = Inl TypeError"
  using get_unknown_name_not_handled
    [of "''j2''" "\<lparr>name_to_job_details = [(PStr ''j1'', PDict [(''name'', PStr ''j1'')])],
        name_to_node_details = [], pending_job_tickets = [], killed_job_tickets = [],
        journal = [], requests_sent = []\<rparr>"]
  by simp

text \<open>
  C8, as stated, fails: with no job \<open>j1\<close> and no node \<open>n2\<close> in the store, both
  views return \<^verbatim>\<open>None\<close> and the caller gets Flask's TypeError, an unhandled failure
  and not a not-found result; the known node \<open>n1\<close> is answered with status 200.
\<close>

theorem get_unknown_name_is_unhandled_failure:
  "get_job \<lparr>name_to_job_details = [], name_to_node_details =
        [(PStr ''n1'', PDict [(''name'', PStr ''n1''), (''hostname'', PStr ''h1'')])],
        pending_job_tickets = [], killed_job_tickets = [], journal = [],
        requests_sent = []\<rparr> ''j1'' = None
   \<and> flask_make_response (get_job \<lparr>name_to_job_details = [], name_to_node_details =
        [(PStr ''n1'', PDict [(''name'', PStr ''n1''), (''hostname'', PStr ''h1'')])],
        pending_job_tickets = [], killed_job_tickets = [], journal = [],
        requests_sent = []\<rparr> ''j1'') = Inl TypeError
   \<and> flask_make_response (get_node \<lparr>name_to_job_details = [], name_to_node_details =
        [(PStr ''n1'', PDict [(''name'', PStr ''n1''), (''hostname'', PStr ''h1'')])],
        pending_job_tickets = [], killed_job_tickets = [], journal = [],
        requests_sent = []\<rparr> ''n2'') = Inl TypeError
   \<and> flask_make_response (get_node \<lparr>name_to_job_details = [], name_to_node_details =
        [(PStr ''n1'', PDict [(''name'', PStr ''n1''), (''hostname'', PStr ''h1'')])],
        pending_job_tickets = [], killed_job_tickets = [], journal = [],
        requests_sent = []\<rparr> ''n1'')
       = Inr (200, PDict [(''name'', PStr ''n1''), (''hostname'', PStr ''h1'')])"
  by (simp add: get_job_def get_node_def get_job_details_def get_node_details_def)


text \<open>
  C9. For a posted dictionary without the key \<^verbatim>\<open>name\<close>, \<^verbatim>\<open>create_job\<close> raises
  \<^verbatim>\<open>KeyError('name')\<close> and the cluster, with its job records and its pending queue,
  is exactly as it was.
\<close>

theorem create_job_without_name:
  assumes "map_of kvs ''name'' = None"
  shows "create_job c (PDict kvs) = (Inl (KeyError ''name''), c)"
  using assms by (simp add: create_job_def)

theorem create_job_without_name_witness:
  "map_of [(''mode'', PStr ''grass'')] ''name'' = None
   \<and> create_job \<lparr>name_to_job_details = [], name_to_node_details = [],
        pending_job_tickets = [PStr ''j0''], killed_job_tickets = [], journal = [],
        requests_sent = []\<rparr> (PDict [(''mode'', PStr ''grass'')])
     = (Inl (KeyError ''name''),
        \<lparr>name_to_job_details = [], name_to_node_details = [],
         pending_job_tickets = [PStr ''j0''], killed_job_tickets = [], journal = [],
         requests_sent = []\<rparr>)"
  using create_job_without_name
    [of "[(''mode'', PStr ''grass'')]" "\<lparr>name_to_job_details = [], name_to_node_details = [],
        pending_job_tickets = [PStr ''j0''], killed_job_tickets = [], journal = [],
        requests_sent = []\<rparr>"]
  by simp

section \<open>Cleaning the jobs\<close>







section \<open>Strip, split and the path strings\<close>

lemma py_strip_prefix:
  assumes "\<forall>x\<in>set xs. x \<in> set cs"
  shows "py_strip cs (xs @ ys) = py_strip cs ys"
  using assms by (simp add: py_strip_def dropWhile_append2)

lemma py_strip_suffix:
  assumes "\<forall>x\<in>set ys. x \<in> set cs"
  shows "py_strip cs (xs @ ys) = py_strip cs xs"
proof (cases "\<forall>x\<in>set xs. x \<in> set cs")
  case True
  then have a: "dropWhile (\<lambda>c. c \<in> set cs) xs = []" by (simp add: dropWhile_eq_Nil_conv)
  from True assms have b: "dropWhile (\<lambda>c. c \<in> set cs) (xs @ ys) = []"
    by (auto simp: dropWhile_eq_Nil_conv)
  show ?thesis unfolding py_strip_def a b ..
next
  case False
  then obtain x where x: "x \<in> set xs" "x \<notin> set cs" by blast
  then have a: "dropWhile (\<lambda>c. c \<in> set cs) (xs @ ys) = dropWhile (\<lambda>c. c \<in> set cs) xs @ ys"
    by (simp add: dropWhile_append1)
  have b: "dropWhile (\<lambda>c. c \<in> set cs) (rev ys @ zs) = dropWhile (\<lambda>c. c \<in> set cs) zs" for zs
    by (rule dropWhile_append2) (use assms in simp)
  show ?thesis unfolding py_strip_def a rev_append b ..
qed

lemma py_strip_length: "length (py_strip cs s) \<le> length s"
proof -
  have "length (py_strip cs s) \<le> length (dropWhile (\<lambda>c. c \<in> set cs) s)"
    unfolding py_strip_def using length_dropWhile_le [of _ "rev (dropWhile (\<lambda>c. c \<in> set cs) s)"]
    by simp
  also have "\<dots> \<le> length s" by (rule length_dropWhile_le)
  finally show ?thesis .
qed

lemma dropWhile_same_length:
  assumes "length xs \<le> length (dropWhile P xs)"
  shows "dropWhile P xs = xs"
proof (cases xs)
  case Nil
  then show ?thesis by simp
next
  case (Cons x xs')
  show ?thesis
  proof (cases "P x")
    case True
    then have "length (dropWhile P xs) \<le> length xs'"
      using Cons length_dropWhile_le [of P xs'] by simp
    with assms Cons show ?thesis by simp
  next
    case False
    with Cons show ?thesis by simp
  qed
qed

lemma py_strip_fixed:
  assumes "py_strip cs s = s" and "s \<noteq> []"
  shows "hd s \<notin> set cs \<and> last s \<notin> set cs"
proof -
  let ?P = "\<lambda>c. c \<in> set cs"
  let ?d = "dropWhile ?P s"
  have "length s = length (dropWhile ?P (rev ?d))"
    using assms(1) by (metis length_rev py_strip_def)
  also have "\<dots> \<le> length ?d" using length_dropWhile_le [of ?P "rev ?d"] by simp
  finally have d: "?d = s" by (rule dropWhile_same_length)
  then have h: "hd s \<notin> set cs" using assms(2) by (simp add: dropWhile_eq_self_iff)
  from assms(1) d have "rev (dropWhile ?P (rev s)) = s" by (simp add: py_strip_def)
  then have "dropWhile ?P (rev s) = rev s" by (metis rev_rev_ident)
  then have "last s \<notin> set cs" using assms(2)
    by (simp add: dropWhile_eq_self_iff hd_rev)
  with h show ?thesis by simp
qed

lemma py_split_not_Nil: "py_split (a # sep) s \<noteq> []"
  by (cases s) (simp_all add: Let_def)

lemma py_join_Cons_Cons: "xs \<noteq> [] \<Longrightarrow> py_join sep (x # xs) = x @ sep @ py_join sep xs"
  by (cases xs) simp_all

lemma py_join_split: "py_join (a # sep) (py_split (a # sep) s) = s"
proof (induction "a # sep" s rule: py_split.induct)
  case 1
  show ?case by simp
next
  case (2 c cs)
  show ?case
  proof (cases "prefix (a # sep) (c # cs)")
    case True
    then have "c # cs = (a # sep) @ drop (length (a # sep)) (c # cs)"
      by (metis append_eq_conv_conj prefixE)
    then have eq: "c # cs = (a # sep) @ drop (length sep) cs" by simp
    have "py_split (a # sep) (c # cs) = [] # py_split (a # sep) (drop (length sep) cs)"
      using True by (simp only: py_split.simps if_True)
    then have "py_join (a # sep) (py_split (a # sep) (c # cs))
        = (a # sep) @ py_join (a # sep) (py_split (a # sep) (drop (length sep) cs))"
      using py_split_not_Nil [of a sep "drop (length sep) cs"]
      by (simp add: py_join_Cons_Cons)
    also have "\<dots> = (a # sep) @ drop (length sep) cs" using 2(1) [OF True] by simp
    finally show ?thesis by (simp only: eq [symmetric])
  next
    case False
    obtain w ws where r: "py_split (a # sep) cs = w # ws"
      using py_split_not_Nil [of a sep cs] by (cases "py_split (a # sep) cs") auto
    have "py_split (a # sep) (c # cs)
        = (let r = py_split (a # sep) cs in (c # hd r) # tl r)"
      using False by (simp only: py_split.simps if_False)
    then have sp: "py_split (a # sep) (c # cs) = (c # w) # ws" using r by simp
    have "py_join (a # sep) ((c # w) # ws) = c # py_join (a # sep) (w # ws)"
      by (cases ws) simp_all
    then show ?thesis using sp r 2(2) [OF False] by simp
  qed
qed

lemma foldl_item_path:
  "foldl item_path p ks = p @ concat (map (\<lambda>k. ''['' @ [quote] @ k @ [quote] @ '']'') ks)"
  by (induction ks arbitrary: p) (simp_all add: item_path_def)

lemma concat_items:
  "ks \<noteq> [] \<Longrightarrow> concat (map (\<lambda>k. ''['' @ [quote] @ k @ [quote] @ '']'') ks)
     = ''['' @ [quote] @ py_join ([quote] @ '']['' @ [quote]) ks @ [quote] @ '']''"
  by (induction ks rule: list_nonempty_induct) (simp_all add: py_join_Cons_Cons)

lemma py_strip_keep_last:
  assumes "b \<notin> set cs"
  shows "py_strip cs (u @ [b]) = dropWhile (\<lambda>c. c \<in> set cs) u @ [b]"
proof -
  have "dropWhile (\<lambda>c. c \<in> set cs) (u @ [b]) = dropWhile (\<lambda>c. c \<in> set cs) u @ [b]"
    using assms by (rule dropWhile_append3)
  then show ?thesis using assms by (simp add: py_strip_def)
qed

lemma deep_diff_path_join:
  assumes "ks \<noteq> []"
  shows "deep_diff_path ks
     = (''root['' @ [quote]) @ py_join ([quote] @ '']['' @ [quote]) ks @ ([quote] @ '']'')"
proof -
  have "deep_diff_path ks
      = ''root'' @ concat (map (\<lambda>k. ''['' @ [quote] @ k @ [quote] @ '']'') ks)"
    by (simp only: deep_diff_path_def foldl_item_path)
  also have "\<dots> = ''root'' @ ''['' @ [quote] @ py_join ([quote] @ '']['' @ [quote]) ks @ [quote] @ '']''"
    by (simp only: concat_items [OF assms])
  finally show ?thesis by simp
qed

lemma strip_twice:
  assumes pre: "\<forall>x\<in>set pre. x \<in> set S1" and b1: "b \<notin> set S1" and q1: "q \<in> set S1"
    and q2: "q \<in> set S2" and b2: "b \<in> set S2"
  shows "py_strip S2 (py_strip S1 (pre @ j @ [q, b]))
     = (if set j \<subseteq> set S1 then [] else py_strip S2 (dropWhile (\<lambda>c. c \<in> set S1) j))"
proof -
  let ?P = "\<lambda>c. c \<in> set S1"
  have a: "py_strip S1 (pre @ j @ [q, b]) = py_strip S1 (j @ [q, b])"
    using pre by (rule py_strip_prefix)
  have b: "j @ [q, b] = (j @ [q]) @ [b]" by simp
  have c: "py_strip S1 ((j @ [q]) @ [b]) = dropWhile ?P (j @ [q]) @ [b]"
    using b1 by (rule py_strip_keep_last)
  have s1: "py_strip S1 (pre @ j @ [q, b]) = dropWhile ?P (j @ [q]) @ [b]"
    using a c by (simp only: b)
  have s2: "py_strip S2 (dropWhile ?P (j @ [q]) @ [b]) = py_strip S2 (dropWhile ?P (j @ [q]))"
    by (rule py_strip_suffix) (use b2 in simp)
  show ?thesis
  proof (cases "set j \<subseteq> set S1")
    case True
    then have "\<forall>x\<in>set (j @ [q]). ?P x" using q1 by auto
    then have "dropWhile ?P (j @ [q]) = []" by (simp only: dropWhile_eq_Nil_conv)
    then have "py_strip S2 (dropWhile ?P (j @ [q])) = []" by (simp add: py_strip_def)
    with True s1 s2 show ?thesis by (simp only: if_True)
  next
    case False
    then obtain x where "x \<in> set j" "\<not> ?P x" by blast
    then have "dropWhile ?P (j @ [q]) = dropWhile ?P j @ [q]"
      by (rule dropWhile_append1)
    moreover have "py_strip S2 (dropWhile ?P j @ [q]) = py_strip S2 (dropWhile ?P j)"
      by (rule py_strip_suffix) (use q2 in simp)
    ultimately show ?thesis using False s1 s2 by (simp only: if_False)
  qed
qed

lemma strip_path:
  "py_strip ([quote] @ '']'') (py_strip (''root['' @ [quote]) ((''root['' @ [quote]) @ j @ ([quote] @ '']'')))
     = (if set j \<subseteq> set (''root['' @ [quote]) then []
        else py_strip ([quote] @ '']'') (dropWhile (\<lambda>c. c \<in> set (''root['' @ [quote])) j))"
proof -
  have b1: "CHR '']'' \<notin> set (''root['' @ [quote])" by (simp add: quote_def)
  have "py_strip ([quote] @ '']'') (py_strip (''root['' @ [quote])
          ((''root['' @ [quote]) @ j @ [quote, CHR '']'']))
     = (if set j \<subseteq> set (''root['' @ [quote]) then []
        else py_strip ([quote] @ '']'') (dropWhile (\<lambda>c. c \<in> set (''root['' @ [quote])) j))"
    by (rule strip_twice) (use b1 in simp_all)
  then show ?thesis by simp
qed

lemma hd_py_join: "ks \<noteq> [] \<Longrightarrow> hd ks \<noteq> [] \<Longrightarrow> hd (py_join sep ks) = hd (hd ks)"
  by (cases ks; cases "tl ks") auto

lemma py_join_not_Nil: "ks \<noteq> [] \<Longrightarrow> last ks \<noteq> [] \<Longrightarrow> py_join sep ks \<noteq> []"
  by (induction sep ks rule: py_join.induct) auto

lemma last_py_join: "ks \<noteq> [] \<Longrightarrow> last ks \<noteq> [] \<Longrightarrow> last (py_join sep ks) = last (last ks)"
proof (induction sep ks rule: py_join.induct)
  case (3 sep x y ys)
  then have "py_join sep (y # ys) \<noteq> []" using py_join_not_Nil [of "y # ys" sep] by simp
  with 3 show ?case by simp
qed simp_all

text \<open>
  C10. The decoder gives back the keys \<open>k1, ..., kn\<close> of a path string only when
  \<open>k1\<close> does not begin with a character of \<^verbatim>\<open>root['\<close> and \<open>kn\<close> does not end
  with a character of \<^verbatim>\<open>']\<close>. The top-level key \<^verbatim>\<open>timeout\<close> is decoded as
  \<^verbatim>\<open>imeout\<close>, and \<^verbatim>\<open>validate_and_fill_dict\<close> writes its default under that key.
\<close>

theorem decoder_inverts_only_clean_keys:
  "(ks \<noteq> [] \<and> get_parent_to_child_key_list (deep_diff_path ks) = ks
      \<longrightarrow> (hd ks = [] \<or> hd (hd ks) \<notin> set (''root['' @ [quote]))
        \<and> (last ks = [] \<or> last (last ks) \<notin> set ([quote] @ '']'')))
   \<and> get_parent_to_child_key_list (deep_diff_path [''timeout'']) = [''imeout'']
   \<and> validate_and_fill_dict (PDict [(''timeout'', PStr [])]) (PDict [])
        [(deep_diff_path [''timeout''], PInt 30)]
      = (Inr (), PDict [(''imeout'', PInt 30)])"
proof -
  let ?S1 = "''root['' @ [quote]" and ?S2 = "[quote] @ '']''"
  let ?sep = "[quote] @ '']['' @ [quote]"
  let ?P = "\<lambda>c. c \<in> set ?S1"
  have general: "(hd ks = [] \<or> hd (hd ks) \<notin> set ?S1) \<and> (last ks = [] \<or> last (last ks) \<notin> set ?S2)"
    if ne: "ks \<noteq> []" and inv: "get_parent_to_child_key_list (deep_diff_path ks) = ks"
  proof -
    let ?j = "py_join ?sep ks"
    let ?r = "py_strip ?S2 (py_strip ?S1 (deep_diff_path ks))"
    have "py_split ?sep ?r = ks" using inv by (simp add: get_parent_to_child_key_list_def)
    then have "?j = py_join ?sep (py_split ?sep ?r)" by simp
    also have "\<dots> = ?r" using py_join_split [of quote "'']['' @ [quote]" ?r] by simp
    finally have j: "?j = ?r" .
    have r: "?r = (if set ?j \<subseteq> set ?S1 then [] else py_strip ?S2 (dropWhile ?P ?j))"
      using strip_path [of ?j] deep_diff_path_join [OF ne] by simp
    have fixed: "dropWhile ?P ?j = ?j \<and> py_strip ?S2 ?j = ?j" if nz: "?j \<noteq> []"
    proof -
      from nz j r have eq: "?j = py_strip ?S2 (dropWhile ?P ?j)" by (metis (no_types, lifting))
      then have "length ?j \<le> length (dropWhile ?P ?j)"
        using py_strip_length [of ?S2 "dropWhile ?P ?j"] by simp
      then have "dropWhile ?P ?j = ?j" by (rule dropWhile_same_length)
      with eq show ?thesis by simp
    qed
    have h: "hd (hd ks) \<notin> set ?S1" if hk: "hd ks \<noteq> []"
    proof -
      have nz: "?j \<noteq> []" using ne hk by (cases ks; cases "tl ks") auto
      from fixed [OF nz] have "dropWhile ?P ?j = ?j" by simp
      then have "\<not> ?P (hd ?j)" using nz by (simp only: dropWhile_eq_self_iff) simp
      then show ?thesis using hd_py_join [OF ne hk, of ?sep] by simp
    qed
    have l: "last (last ks) \<notin> set ?S2" if lk: "last ks \<noteq> []"
    proof -
      have nz: "?j \<noteq> []" using py_join_not_Nil [OF ne lk] .
      from fixed [OF nz] have "py_strip ?S2 ?j = ?j" by simp
      from py_strip_fixed [OF this nz] show ?thesis using last_py_join [OF ne lk, of ?sep] by simp
    qed
    from h l show ?thesis by blast
  qed
  have t1: "get_parent_to_child_key_list (deep_diff_path [''timeout'']) = [''imeout'']"
    by code_simp
  have t2: "validate_and_fill_dict (PDict [(''timeout'', PStr [])]) (PDict [])
        [(deep_diff_path [''timeout''], PInt 30)]
      = (Inr (), PDict [(''imeout'', PInt 30)])"
    by code_simp
  from general t1 t2 show ?thesis by blast
qed

theorem decoder_inverts_only_clean_keys_witness:
  "get_parent_to_child_key_list (deep_diff_path [''node'', ''resources'', ''gpu''])
     = [''node'', ''resources'', ''gpu'']
   \<and> CHR ''n'' \<notin> set (''root['' @ [quote]) \<and> CHR ''u'' \<notin> set ([quote] @ '']'')"
proof -
  have d: "get_parent_to_child_key_list (deep_diff_path [''node'', ''resources'', ''gpu''])
     = [''node'', ''resources'', ''gpu'']"
    by code_simp
  from decoder_inverts_only_clean_keys [of "[''node'', ''resources'', ''gpu'']"] d
  show ?thesis by simp
qed

section \<open>What the validator reports and fills\<close>

lemma removed_unless_both_dicts:
  "\<not> (is_dict v \<and> is_dict w) \<Longrightarrow> dictionary_item_removed p v w = []"
  by (cases v; cases w) simp_all

text \<open>
  C5, as the code has it. A key that is a dictionary in the template and not one in
  the actual document is not reported: the difference report lists nothing at or under
  it. So when every key of the template is in the actual document, and no dictionary of
  the template meets a dictionary there, \<^verbatim>\<open>validate_and_fill_dict\<close> succeeds and
  leaves the document as it was.
\<close>

theorem type_mismatch_not_reported:
  "(\<not> is_dict w \<longrightarrow> dictionary_item_removed path (PDict sub) w = [])
   \<and> ((\<forall>kv\<in>set t. \<exists>w. map_of a (fst kv) = Some w \<and> (is_dict (snd kv) \<longrightarrow> \<not> is_dict w))
        \<longrightarrow> validate_and_fill_dict (PDict t) (PDict a) optional_key_to_value = (Inr (), PDict a))"
proof -
  have local: "dictionary_item_removed path (PDict sub) w = []" if "\<not> is_dict w"
    using that by (simp add: removed_unless_both_dicts)
  have whole: "validate_and_fill_dict (PDict t) (PDict a) optional_key_to_value = (Inr (), PDict a)"
    if h: "\<forall>kv\<in>set t. \<exists>w. map_of a (fst kv) = Some w \<and> (is_dict (snd kv) \<longrightarrow> \<not> is_dict w)"
  proof -
    have f: "filter (\<lambda>k. map_of a k = None) (map fst t) = []"
      using h by (auto simp: filter_empty_conv)
    have "(case map_of t k of None \<Rightarrow> []
            | Some v \<Rightarrow> (case map_of a k of None \<Rightarrow> []
                | Some w \<Rightarrow> dictionary_item_removed (item_path ''root'' k) v w)) = []" for k
    proof (cases "map_of t k")
      case None
      then show ?thesis by simp
    next
      case (Some v)
      then have "(k, v) \<in> set t" by (rule map_of_SomeD)
      with h obtain w where "map_of a k = Some w" "is_dict v \<longrightarrow> \<not> is_dict w"
        by fastforce
      with Some show ?thesis by (simp add: removed_unless_both_dicts)
    qed
    then have c: "concat (map (\<lambda>k. case map_of t k of None \<Rightarrow> []
            | Some v \<Rightarrow> (case map_of a k of None \<Rightarrow> []
                | Some w \<Rightarrow> dictionary_item_removed (item_path ''root'' k) v w)) (map fst a)) = []"
      by simp
    have r: "dictionary_item_removed ''root'' (PDict t) (PDict a) = []"
      by (simp only: dictionary_item_removed.simps f c list.map append_Nil)
    show ?thesis unfolding validate_and_fill_dict_def r by simp
  qed
  from local whole show ?thesis by blast
qed

theorem type_mismatch_not_reported_witness:
  "validate_and_fill_dict (PDict [(''master'', PDict [(''hostname'', PStr [])])])
      (PDict [(''master'', PStr ''10.0.0.1'')]) []
    = (Inr (), PDict [(''master'', PStr ''10.0.0.1'')])"
  using type_mismatch_not_reported
    [of "PNone" "[]" "[]" "[(''master'', PDict [(''hostname'', PStr [])])]"
        "[(''master'', PStr ''10.0.0.1'')]" "[]"]
  by simp

text \<open>
  C5, as stated, fails: against the template of the join deployment, a document
  whose \<^verbatim>\<open>node\<close> is a string, not a dictionary, is accepted unchanged.
\<close>

theorem type_mismatch_accepted:
  "validate_and_fill_dict join_node_deployment_template
     (PDict [(''mode'', PStr ''grass/on-premises''),
             (''master'', PDict [(''hostname'', PStr ''10.0.0.1'')]),
             (''node'', PStr ''worker-1''),
             (''connection'', PDict [(''api_server'', PDict [(''port'', PInt 51812)])])]) []
   = (Inr (),
      PDict [(''mode'', PStr ''grass/on-premises''),
             (''master'', PDict [(''hostname'', PStr ''10.0.0.1'')]),
             (''node'', PStr ''worker-1''),
             (''connection'', PDict [(''api_server'', PDict [(''port'', PInt 51812)])])])"
  by code_simp

text \<open>
  C4 at a failing input. The only missing path, \<^verbatim>\<open>root['resources']['gpu']\<close>, is
  listed in the optional keys, and the call still fails: the decoder turns the path
  into \<^verbatim>\<open>esources\<close>, \<^verbatim>\<open>gpu\<close>, and the lookup of \<^verbatim>\<open>esources\<close> raises
  KeyError.
\<close>

theorem listed_default_raises_key_error:
  "dictionary_item_removed ''root'' (PDict [(''resources'', PDict [(''gpu'', PStr [])])])
      (PDict [(''resources'', PDict [])])
     = [deep_diff_path [''resources'', ''gpu'']]
   \<and> map_of [(deep_diff_path [''resources'', ''gpu''], PStr [])]
        (deep_diff_path [''resources'', ''gpu'']) = Some (PStr [])
   \<and> validate_and_fill_dict (PDict [(''resources'', PDict [(''gpu'', PStr [])])])
        (PDict [(''resources'', PDict [])])
        [(deep_diff_path [''resources'', ''gpu''], PStr [])]
     = (Inl (KeyError ''esources''), PDict [(''resources'', PDict [])])"
  by code_simp

text \<open>
  C6 at a failing input. A join deployment that lacks only
  \<^verbatim>\<open>node.resources.gpu\<close> is filled with the default at that path; but the default
  listed for the missing top-level key \<^verbatim>\<open>region\<close> is written under \<^verbatim>\<open>egion\<close>,
  and \<^verbatim>\<open>region\<close> stays missing.
\<close>

theorem default_written_under_other_key:
  "validate_and_fill_dict join_node_deployment_template
     (PDict [(''mode'', PStr ''grass/on-premises''),
             (''master'', PDict [(''hostname'', PStr ''10.0.0.1'')]),
             (''node'', PDict [(''hostname'', PStr ''w1''),
                (''public_ip_address'', PStr ''52.0.0.4''),
                (''private_ip_address'', PStr ''10.0.0.4''),
                (''resources'', PDict [(''cpu'', PInt 4), (''memory'', PInt 8)])]),
             (''connection'', PDict [(''api_server'', PDict [(''port'', PInt 51812)])])])
     [(deep_diff_path [''node'', ''resources'', ''gpu''], PStr [])]
   = (Inr (),
      PDict [(''mode'', PStr ''grass/on-premises''),
             (''master'', PDict [(''hostname'', PStr ''10.0.0.1'')]),
             (''node'', PDict [(''hostname'', PStr ''w1''),
                (''public_ip_address'', PStr ''52.0.0.4''),
                (''private_ip_address'', PStr ''10.0.0.4''),
                (''resources'', PDict [(''cpu'', PInt 4), (''memory'', PInt 8), (''gpu'', PStr [])])]),
             (''connection'', PDict [(''api_server'', PDict [(''port'', PInt 51812)])])])
   \<and> validate_and_fill_dict (PDict [(''region'', PStr [])]) (PDict [])
        [(deep_diff_path [''region''], PStr ''eastus'')]
     = (Inr (), PDict [(''egion'', PStr ''eastus'')])"
  by code_simp


end
